theory Spec2Isabelle
  imports Complex_Main "HOL-Library.AList" "HOL-Library.Char_ord" "HOL-Library.List_Lexorder"
begin

section \<open>Python values\<close>

text \<open>
  The agents exchange JSON-shaped Python values: dicts with string keys, lists, strings,
  numbers, booleans and None. A dict is an association list in insertion order. Python floats
  and ints are both read as real numbers. \<open>JTime t\<close> stands for the ISO-8601 string of the
  instant \<open>t\<close> (seconds), as \<open>datetime.isoformat\<close> writes it and \<open>datetime.fromisoformat\<close>
  reads it back.
\<close>

datatype json =
    JNull
  | JBool bool
  | JNum real
  | JStr string
  | JTime real
  | JList "json list"
  | JObj "(string \<times> json) list"

datatype exn =
    KeyError string
  | TypeError
  | AttributeError
  | ValidationError
  | ServiceError string

type_synonym dict = "(string \<times> json) list"

definition bindE :: "exn + 'a \<Rightarrow> ('a \<Rightarrow> exn + 'b) \<Rightarrow> exn + 'b" where
  "bindE m f = (case m of Inl e \<Rightarrow> Inl e | Inr x \<Rightarrow> f x)"

text \<open>\<open>d[k]\<close> on a value: KeyError on a missing key, TypeError when the value is no dict.\<close>

definition getitem :: "json \<Rightarrow> string \<Rightarrow> exn + json" where
  "getitem j k = (case j of
       JObj kvs \<Rightarrow> (case map_of kvs k of None \<Rightarrow> Inl (KeyError k) | Some v \<Rightarrow> Inr v)
     | _ \<Rightarrow> Inl TypeError)"

text \<open>\<open>d.get(k, default)\<close>: AttributeError when the value is no dict.\<close>

definition get_default :: "json \<Rightarrow> string \<Rightarrow> json \<Rightarrow> exn + json" where
  "get_default j k d = (case j of
       JObj kvs \<Rightarrow> (case map_of kvs k of None \<Rightarrow> Inr d | Some v \<Rightarrow> Inr v)
     | _ \<Rightarrow> Inl AttributeError)"

text \<open>\<open>d[k] = v\<close>: replaces the value in place or appends the key; TypeError on a non-dict.\<close>

definition setitem :: "json \<Rightarrow> string \<Rightarrow> json \<Rightarrow> exn + json" where
  "setitem j k v = (case j of
       JObj kvs \<Rightarrow> Inr (JObj (AList.update k v kvs))
     | _ \<Rightarrow> Inl TypeError)"

text \<open>Truthiness of a value in \<open>if x:\<close>.\<close>

fun truthy :: "json \<Rightarrow> bool" where
  "truthy JNull = False"
| "truthy (JBool b) = b"
| "truthy (JNum x) = (x \<noteq> 0)"
| "truthy (JStr s) = (s \<noteq> [])"
| "truthy (JTime t) = True"
| "truthy (JList xs) = (xs \<noteq> [])"
| "truthy (JObj kvs) = (kvs \<noteq> [])"

text \<open>A value used as a number: bool is a subclass of int in Python.\<close>

fun py_num :: "json \<Rightarrow> real option" where
  "py_num (JNum x) = Some x"
| "py_num (JBool b) = Some (if b then 1 else 0)"
| "py_num _ = None"

text \<open>\<open>len(x)\<close>.\<close>

fun py_len :: "json \<Rightarrow> exn + nat" where
  "py_len (JList xs) = Inr (length xs)"
| "py_len (JObj kvs) = Inr (length kvs)"
| "py_len (JStr s) = Inr (length s)"
| "py_len _ = Inl TypeError"

text \<open>\<open>for x in v\<close>: a list yields its elements, a dict its keys, a string its characters.\<close>

fun py_iter :: "json \<Rightarrow> exn + json list" where
  "py_iter (JList xs) = Inr xs"
| "py_iter (JObj kvs) = Inr (map (\<lambda>kv. JStr (fst kv)) kvs)"
| "py_iter (JStr s) = Inr (map (\<lambda>c. JStr [c]) s)"
| "py_iter _ = Inl TypeError"

fun mapE :: "('a \<Rightarrow> exn + 'b) \<Rightarrow> 'a list \<Rightarrow> exn + 'b list" where
  "mapE f [] = Inr []"
| "mapE f (x # xs) = bindE (f x) (\<lambda>y. bindE (mapE f xs) (\<lambda>ys. Inr (y # ys)))"

section \<open>Strings\<close>

text \<open>
  Characters are bytes; \<open>str.lower\<close>, \<open>str.strip\<close> and the regular expression class
  \<open>\w\<close> are modelled on ASCII.
\<close>

definition lower_char :: "char \<Rightarrow> char" where
  "lower_char c = (let n = (of_char c :: nat) in if 65 \<le> n \<and> n \<le> 90 then char_of (n + 32) else c)"

definition lower :: "string \<Rightarrow> string" where
  "lower s = map lower_char s"

definition is_space :: "char \<Rightarrow> bool" where
  "is_space c = (let n = (of_char c :: nat) in n = 32 \<or> (9 \<le> n \<and> n \<le> 13))"

definition strip :: "string \<Rightarrow> string" where
  "strip s = rev (dropWhile is_space (rev (dropWhile is_space s)))"

definition is_word_char :: "char \<Rightarrow> bool" where
  "is_word_char c = (let n = (of_char c :: nat) in
     (48 \<le> n \<and> n \<le> 57) \<or> (65 \<le> n \<and> n \<le> 90) \<or> (97 \<le> n \<and> n \<le> 122) \<or> n = 95)"

text \<open>\<open>re.findall(r'\b\w+\b', s)\<close>: the maximal runs of word characters, left to right.\<close>

fun findall_words :: "string \<Rightarrow> string \<Rightarrow> string list" where
  "findall_words acc [] = (if acc = [] then [] else [rev acc])"
| "findall_words acc (c # cs) =
     (if is_word_char c then findall_words (c # acc) cs
      else if acc = [] then findall_words [] cs
      else rev acc # findall_words [] cs)"

fun join :: "string \<Rightarrow> string list \<Rightarrow> string" where
  "join sep [] = []"
| "join sep [x] = x"
| "join sep (x # y # ys) = x @ sep @ join sep (y # ys)"

text \<open>\<open>needle in haystack\<close> on strings.\<close>

fun contains :: "string \<Rightarrow> string \<Rightarrow> bool" where
  "contains [] needle = (needle = [])"
| "contains (c # cs) needle = (take (length needle) (c # cs) = needle \<or> contains cs needle)"

section \<open>The key-value store\<close>

text \<open>
  The Redis collaborator: each key holds a document and the instant at which it expires
  (\<open>SETEX\<close>). The documents are the JSON documents themselves: \<open>json.dumps\<close> on writing and
  \<open>json.loads\<close> on reading are the identity on them. The order of the association list is the
  order in which \<open>KEYS\<close> lists the keys. The store is taken to be reachable; \<open>SETEX\<close> still
  refuses an expiry that is not positive.
\<close>

type_synonym store = "(string \<times> json \<times> real) list"

definition kv_get :: "store \<Rightarrow> real \<Rightarrow> string \<Rightarrow> json option" where
  "kv_get s now k = (case map_of s k of
       None \<Rightarrow> None
     | Some (v, ex) \<Rightarrow> if now < ex then Some v else None)"

definition kv_setex :: "store \<Rightarrow> real \<Rightarrow> string \<Rightarrow> int \<Rightarrow> json \<Rightarrow> exn + store" where
  "kv_setex s now k ttl v =
     (if ttl \<le> 0 then Inl (ServiceError ''invalid expire time'')
      else Inr (AList.update k (v, now + of_int ttl) s))"

definition kv_delete :: "store \<Rightarrow> string \<Rightarrow> store" where
  "kv_delete s k = AList.delete k s"

text \<open>Glob patterns of \<open>KEYS\<close>: \<open>*\<close> is any run of characters, \<open>?\<close> any one character.\<close>

fun glob :: "string \<Rightarrow> string \<Rightarrow> bool" where
  "glob [] s = (s = [])"
| "glob (p # ps) [] = (p = CHR ''*'' \<and> glob ps [])"
| "glob (p # ps) (c # cs) =
     (if p = CHR ''*'' then glob ps (c # cs) \<or> glob (p # ps) cs
      else if p = CHR ''?'' then glob ps cs
      else p = c \<and> glob ps cs)"

definition kv_keys :: "store \<Rightarrow> real \<Rightarrow> string \<Rightarrow> string list" where
  "kv_keys s now pat = filter (\<lambda>k. kv_get s now k \<noteq> None \<and> glob pat k) (remdups (map fst s))"

section \<open>The cache agent\<close>

text \<open>
  \<open>CAGAgent\<close> (cag_agent.py). The agent object holds the TTL settings, the embedding client
  (\<open>None\<close> when \<open>embed_text\<close> raises) and the text hash (MD5 in the source, a parameter here).
  Each operation runs at one instant \<open>now\<close>.
\<close>

record settings =
  cache_ttl_factual :: int
  cache_ttl_analytical :: int
  cache_ttl_temporal :: int
  cache_ttl_personal :: int

record cag_agent =
  cag_settings :: settings
  hash_text :: "string \<Rightarrow> string"
  embed_text :: "string \<Rightarrow> real list option"

text \<open>The table \<open>self.cache_ttl\<close> of \<open>__init__\<close>; its entry \<open>general\<close> is the factual TTL.\<close>

definition cache_ttl :: "cag_agent \<Rightarrow> (string \<times> int) list" where
  "cache_ttl self =
     [(''factual'', cache_ttl_factual (cag_settings self)),
      (''analytical'', cache_ttl_analytical (cag_settings self)),
      (''temporal'', cache_ttl_temporal (cag_settings self)),
      (''personal'', cache_ttl_personal (cag_settings self)),
      (''general'', cache_ttl_factual (cag_settings self))]"

text \<open>\<open>self.cache_ttl.get(query_type, self.cache_ttl['general'])\<close>.\<close>

definition cache_ttl_get :: "cag_agent \<Rightarrow> string \<Rightarrow> int" where
  "cache_ttl_get self query_type =
     (case map_of (cache_ttl self) query_type of
        Some t \<Rightarrow> t
      | None \<Rightarrow> cache_ttl_factual (cag_settings self))"

text \<open>The dict \<open>user_context\<close> with its two entries, each a string or None.\<close>

record user_ctx =
  ctx_user_id :: "string option"
  ctx_session_id :: "string option"

definition opt_json :: "string option \<Rightarrow> json" where
  "opt_json x = (case x of None \<Rightarrow> JNull | Some s \<Rightarrow> JStr s)"

text \<open>\<open>user_context or {}\<close> as a document.\<close>

definition ctx_json :: "user_ctx option \<Rightarrow> json" where
  "ctx_json uc = (case uc of
       None \<Rightarrow> JObj []
     | Some c \<Rightarrow> JObj [(''user_id'', opt_json (ctx_user_id c)), (''session_id'', opt_json (ctx_session_id c))])"

definition stop_words :: "string list" where
  "stop_words =
     [''a'', ''an'', ''and'', ''are'', ''as'', ''at'', ''be'', ''by'', ''for'', ''from'',
      ''has'', ''he'', ''in'', ''is'', ''it'', ''its'', ''of'', ''on'', ''that'', ''the'',
      ''to'', ''was'', ''will'', ''with'', ''what'', ''how'', ''when'', ''where'', ''who'']"

definition get_semantic_hash :: "cag_agent \<Rightarrow> string \<Rightarrow> string option" where
  "get_semantic_hash self text =
     (let wordlist = findall_words [] (lower text);
          meaningful_words = filter (\<lambda>w. length w > 3 \<and> w \<notin> set stop_words) wordlist
      in if meaningful_words \<noteq> []
         then Some (hash_text self (join '' '' (take 10 (sort meaningful_words))))
         else None)"

definition generate_cache_keys :: "cag_agent \<Rightarrow> string \<Rightarrow> user_ctx option \<Rightarrow> string list" where
  "generate_cache_keys self query user_context =
     [''exact:'' @ hash_text self query,
      ''normalized:'' @ hash_text self (strip (lower query))]
     @ (case user_context of
          None \<Rightarrow> []
        | Some c \<Rightarrow> (case ctx_user_id c of
              None \<Rightarrow> []
            | Some u \<Rightarrow> if u \<noteq> [] then [''user:'' @ u @ '':'' @ hash_text self query] else []))
     @ (case user_context of
          None \<Rightarrow> []
        | Some c \<Rightarrow> (case ctx_session_id c of
              None \<Rightarrow> []
            | Some u \<Rightarrow> if u \<noteq> [] then [''session:'' @ u @ '':'' @ hash_text self query] else []))
     @ (case get_semantic_hash self query of
          None \<Rightarrow> []
        | Some h \<Rightarrow> if h \<noteq> [] then [''semantic:'' @ h] else [])"

text \<open>\<open>_is_fresh\<close>: any exception inside (missing key, unreadable timestamp, a TTL that is no
  number) makes the record stale.\<close>

definition is_fresh :: "cag_agent \<Rightarrow> real \<Rightarrow> json \<Rightarrow> bool" where
  "is_fresh self now cached_result =
     (case getitem cached_result ''cached_at'' of
        Inr (JTime cached_at) \<Rightarrow>
          (case get_default cached_result ''ttl'' (JNum (of_int (cache_ttl_factual (cag_settings self)))) of
             Inr t \<Rightarrow> (case py_num t of Some ttl \<Rightarrow> now - cached_at < ttl | None \<Rightarrow> False)
           | Inl e \<Rightarrow> False)
      | _ \<Rightarrow> False)"

fun num_list :: "json list \<Rightarrow> real list option" where
  "num_list [] = Some []"
| "num_list (JNum x # xs) = (case num_list xs of None \<Rightarrow> None | Some ys \<Rightarrow> Some (x # ys))"
| "num_list (_ # xs) = None"

definition dot :: "real list \<Rightarrow> real list \<Rightarrow> real" where
  "dot xs ys = sum_list (map (\<lambda>p. fst p * snd p) (zip xs ys))"

definition norm2 :: "real list \<Rightarrow> real" where
  "norm2 xs = sqrt (sum_list (map (\<lambda>x. x * x) xs))"

text \<open>
  \<open>_cosine_similarity\<close> of the query embedding (a list of floats of more than one dimension)
  and a stored embedding read from a document. On a stored value that is no list of numbers
  of the same length numpy raises, which the function turns into 0.0, or gives no scalar, so
  that the caller's comparison raises and the entry is skipped as it is at 0.0.
\<close>

definition cosine_similarity :: "real list \<Rightarrow> json \<Rightarrow> real" where
  "cosine_similarity vec1 j =
     (case j of
        JList xs \<Rightarrow>
          (case num_list xs of
             None \<Rightarrow> 0
           | Some vec2 \<Rightarrow>
               if length vec1 \<noteq> length vec2 then 0
               else if norm2 vec1 = 0 \<or> norm2 vec2 = 0 then 0
               else dot vec1 vec2 / (norm2 vec1 * norm2 vec2))
      | _ \<Rightarrow> 0)"

text \<open>
  The body of the loop of \<open>_find_similar_cached_query\<close> on one loaded index document, with
  the pair \<open>(best_match, best_similarity)\<close>. An exception leaves the loop body where it is
  raised (\<open>except Exception: continue\<close>) and keeps the assignments made before it.
\<close>

definition scan_entry :: "real list \<Rightarrow> real \<Rightarrow> json \<Rightarrow> json \<times> real \<Rightarrow> json \<times> real" where
  "scan_entry query_embedding threshold data acc =
     (case getitem data ''embedding'' of
        Inl e \<Rightarrow> acc
      | Inr cached_embedding \<Rightarrow>
          (let similarity = cosine_similarity query_embedding cached_embedding in
           if similarity > threshold \<and> similarity > snd acc then
             (case getitem data ''cache_data'' of
                Inl e \<Rightarrow> (fst acc, similarity)
              | Inr best \<Rightarrow>
                  (case setitem best ''similarity_score'' (JNum similarity) of
                     Inl e \<Rightarrow> (best, similarity)
                   | Inr best1 \<Rightarrow>
                       (case getitem data ''query'' of
                          Inl e \<Rightarrow> (best1, similarity)
                        | Inr q \<Rightarrow>
                            (case setitem best1 ''original_query'' q of
                               Inl e \<Rightarrow> (best1, similarity)
                             | Inr best2 \<Rightarrow> (best2, similarity)))))
           else acc))"

definition scan_key :: "store \<Rightarrow> real \<Rightarrow> real list \<Rightarrow> real \<Rightarrow> json \<times> real \<Rightarrow> string \<Rightarrow> json \<times> real" where
  "scan_key s now query_embedding threshold acc key =
     (case kv_get s now key of
        None \<Rightarrow> acc
      | Some data \<Rightarrow> scan_entry query_embedding threshold data acc)"

text \<open>\<open>_find_similar_cached_query\<close>; \<open>JNull\<close> is Python's None.\<close>

definition find_similar_cached_query :: "cag_agent \<Rightarrow> store \<Rightarrow> real \<Rightarrow> string \<Rightarrow> real \<Rightarrow> json" where
  "find_similar_cached_query self s now query similarity_threshold =
     (case embed_text self query of
        None \<Rightarrow> JNull
      | Some query_embedding \<Rightarrow>
          fst (foldl (scan_key s now query_embedding similarity_threshold) (JNull, 0)
                 (take 50 (kv_keys s now ''semantic_embeddings:*''))))"

text \<open>The probing loop of \<open>check_cache\<close> over the candidate keys.\<close>

fun probe :: "cag_agent \<Rightarrow> real \<Rightarrow> string list \<Rightarrow> store \<Rightarrow> (exn + json option) \<times> store" where
  "probe self now [] s = (Inr None, s)"
| "probe self now (key # keys) s =
     (case kv_get s now key of
        None \<Rightarrow> probe self now keys s
      | Some result \<Rightarrow>
          if is_fresh self now result then
            (case setitem result ''cache_key'' (JStr key) of
               Inl e \<Rightarrow> (Inl e, s)
             | Inr tagged \<Rightarrow> (Inr (Some tagged), s))
          else probe self now keys (kv_delete s key))"

definition check_cache :: "cag_agent \<Rightarrow> store \<Rightarrow> real \<Rightarrow> string \<Rightarrow> user_ctx option \<Rightarrow> json option \<times> store" where
  "check_cache self s now query user_context =
     (case probe self now (generate_cache_keys self query user_context) s of
        (Inl e, s') \<Rightarrow> (None, s')
      | (Inr (Some result), s') \<Rightarrow> (Some result, s')
      | (Inr None, s') \<Rightarrow>
          (let similar_result = find_similar_cached_query self s' now query 0.85 in
           if truthy similar_result then (Some similar_result, s') else (None, s')))"

definition cache_data_of :: "cag_agent \<Rightarrow> real \<Rightarrow> string \<Rightarrow> dict \<Rightarrow> user_ctx option \<Rightarrow> string \<Rightarrow> json" where
  "cache_data_of self now query result user_context query_type =
     JObj [(''query'', JStr query),
           (''result'', JObj result),
           (''user_context'', ctx_json user_context),
           (''query_type'', JStr query_type),
           (''cached_at'', JTime now),
           (''confidence'', (case map_of result ''confidence'' of None \<Rightarrow> JNum 0.5 | Some c \<Rightarrow> c)),
           (''ttl'', JNum (of_int (cache_ttl_get self query_type)))]"

text \<open>The writing loop of \<open>update_cache\<close>; a refused \<open>SETEX\<close> ends it.\<close>

fun setex_all :: "store \<Rightarrow> real \<Rightarrow> string list \<Rightarrow> int \<Rightarrow> json \<Rightarrow> store \<times> exn option" where
  "setex_all s now [] ttl v = (s, None)"
| "setex_all s now (key # keys) ttl v =
     (case kv_setex s now key ttl v of
        Inl e \<Rightarrow> (s, Some e)
      | Inr s' \<Rightarrow> setex_all s' now keys ttl v)"

definition store_semantic_cache :: "cag_agent \<Rightarrow> store \<Rightarrow> real \<Rightarrow> string \<Rightarrow> json \<Rightarrow> store" where
  "store_semantic_cache self s now query cache_data =
     (case embed_text self query of
        None \<Rightarrow> s
      | Some embedding \<Rightarrow>
          (case kv_setex s now (''semantic_embeddings:'' @ hash_text self query)
                  (cache_ttl_analytical (cag_settings self))
                  (JObj [(''query'', JStr query),
                         (''embedding'', JList (map JNum embedding)),
                         (''cache_data'', cache_data),
                         (''created_at'', JTime now)]) of
             Inl e \<Rightarrow> s
           | Inr s' \<Rightarrow> s'))"

definition update_cache :: "cag_agent \<Rightarrow> store \<Rightarrow> real \<Rightarrow> string \<Rightarrow> dict \<Rightarrow> user_ctx option \<Rightarrow> string \<Rightarrow> store" where
  "update_cache self s now query result user_context query_type =
     (let cache_data = cache_data_of self now query result user_context query_type;
          cache_keys = generate_cache_keys self query user_context;
          ttl = cache_ttl_get self query_type
      in case setex_all s now cache_keys ttl cache_data of
           (s1, Some e) \<Rightarrow> s1
         | (s1, None) \<Rightarrow> store_semantic_cache self s1 now query cache_data)"

text \<open>
  \<open>invalidate_cache_pattern\<close> has no \<open>return\<close> statement: the value it hands back is None
  on every path. The first component is that value.
\<close>

definition invalidate_cache_pattern :: "store \<Rightarrow> real \<Rightarrow> string \<Rightarrow> json \<times> store" where
  "invalidate_cache_pattern s now pattern =
     (let keys = kv_keys s now pattern
      in if keys \<noteq> [] then (JNull, fold (\<lambda>k s'. kv_delete s' k) keys s) else (JNull, s))"

section \<open>The orchestrator\<close>

text \<open>
  \<open>OrchestratorAgent\<close> (orchestrator.py). \<open>QueryStrategy\<close> is a pydantic model: a value of
  the declared type of a field is accepted as it is, a missing field takes its default, and
  what pydantic makes of any other value (a coercion or a ValidationError, \<open>None\<close> here)
  depends on the library and is a parameter.
\<close>

record QueryStrategy =
  use_rag :: bool
  use_kag :: bool
  use_temporal :: bool
  use_tools :: bool
  rag_limit :: int
  kg_depth :: int
  time_range :: "string option"
  reasoning :: string

record pydantic =
  lax_bool :: "json \<Rightarrow> bool option"
  lax_int :: "json \<Rightarrow> int option"
  lax_float :: "json \<Rightarrow> real option"
  lax_str :: "json \<Rightarrow> string option"
  lax_dict :: "json \<Rightarrow> dict option"

definition or_invalid :: "'a option \<Rightarrow> exn + 'a" where
  "or_invalid x = (case x of None \<Rightarrow> Inl ValidationError | Some y \<Rightarrow> Inr y)"

definition as_bool :: "pydantic \<Rightarrow> json \<Rightarrow> exn + bool" where
  "as_bool pd j = (case j of JBool b \<Rightarrow> Inr b | _ \<Rightarrow> or_invalid (lax_bool pd j))"

definition as_int :: "pydantic \<Rightarrow> json \<Rightarrow> exn + int" where
  "as_int pd j = (case j of
       JNum x \<Rightarrow> if x = of_int \<lfloor>x\<rfloor> then Inr \<lfloor>x\<rfloor> else or_invalid (lax_int pd j)
     | _ \<Rightarrow> or_invalid (lax_int pd j))"

definition as_float :: "pydantic \<Rightarrow> json \<Rightarrow> exn + real" where
  "as_float pd j = (case j of JNum x \<Rightarrow> Inr x | _ \<Rightarrow> or_invalid (lax_float pd j))"

definition as_str :: "pydantic \<Rightarrow> json \<Rightarrow> exn + string" where
  "as_str pd j = (case j of JStr x \<Rightarrow> Inr x | _ \<Rightarrow> or_invalid (lax_str pd j))"

definition as_opt_str :: "pydantic \<Rightarrow> json \<Rightarrow> exn + string option" where
  "as_opt_str pd j = (case j of JNull \<Rightarrow> Inr None | _ \<Rightarrow> bindE (as_str pd j) (\<lambda>x. Inr (Some x)))"

definition as_dict :: "pydantic \<Rightarrow> json \<Rightarrow> exn + json" where
  "as_dict pd j = (case j of JObj d \<Rightarrow> Inr j | _ \<Rightarrow> bindE (or_invalid (lax_dict pd j)) (\<lambda>d. Inr (JObj d)))"

definition field :: "dict \<Rightarrow> string \<Rightarrow> 'a \<Rightarrow> (json \<Rightarrow> exn + 'a) \<Rightarrow> exn + 'a" where
  "field d k dflt conv = (case map_of d k of None \<Rightarrow> Inr dflt | Some j \<Rightarrow> conv j)"

text \<open>\<open>QueryStrategy(**strategy_dict)\<close>; unpacking a value that is no dict is a TypeError.\<close>

definition QueryStrategy_init :: "pydantic \<Rightarrow> json \<Rightarrow> exn + QueryStrategy" where
  "QueryStrategy_init pd j =
     (case j of
        JObj d \<Rightarrow>
          bindE (field d ''use_rag'' True (as_bool pd)) (\<lambda>a.
          bindE (field d ''use_kag'' False (as_bool pd)) (\<lambda>b.
          bindE (field d ''use_temporal'' False (as_bool pd)) (\<lambda>c.
          bindE (field d ''use_tools'' False (as_bool pd)) (\<lambda>t.
          bindE (field d ''rag_limit'' 10 (as_int pd)) (\<lambda>l.
          bindE (field d ''kg_depth'' 2 (as_int pd)) (\<lambda>k.
          bindE (field d ''time_range'' None (as_opt_str pd)) (\<lambda>r.
          bindE (field d ''reasoning'' [] (as_str pd)) (\<lambda>n.
            Inr \<lparr>use_rag = a, use_kag = b, use_temporal = c, use_tools = t, rag_limit = l,
                 kg_depth = k, time_range = r, reasoning = n\<rparr>))))))))
      | _ \<Rightarrow> Inl TypeError)"

text \<open>
  The agent object: the completion collaborator on the analysis prompt of a query and its
  context, and on the answer prompt of a query, a context text and the listed sources (\<open>Inl\<close>
  for whatever is raised while the prompt is built and the call runs), the JSON decoder
  (\<open>None\<close> for a JSONDecodeError) and the validation parameter.
\<close>

record orchestrator =
  run_analysis :: "string \<Rightarrow> json option \<Rightarrow> exn + string"
  run_answer :: "string \<Rightarrow> string \<Rightarrow> json list \<Rightarrow> exn + string"
  json_loads :: "string \<Rightarrow> json option"
  validation :: pydantic

text \<open>\<open>re.search(r'\{.*\}', s, re.DOTALL).group()\<close>: from the first opening brace to the last
  closing brace after it.\<close>

definition json_match :: "string \<Rightarrow> string option" where
  "json_match s =
     (let s1 = dropWhile (\<lambda>c. c \<noteq> CHR ''{'') s in
      if s1 = [] then None
      else (let r = dropWhile (\<lambda>c. c \<noteq> CHR ''}'') (rev (tl s1)) in
            if r = [] then None else Some (CHR ''{'' # rev r)))"

definition parse_strategy :: "orchestrator \<Rightarrow> string \<Rightarrow> json" where
  "parse_strategy self llm_output =
     (case json_match llm_output of
        Some m \<Rightarrow>
          (case json_loads self m of
             Some j \<Rightarrow> j
           | None \<Rightarrow> JObj [(''use_rag'', JBool True),
                            (''reasoning'', JStr ''Parse error - using default RAG strategy'')])
      | None \<Rightarrow>
          JObj [(''use_rag'', JBool (contains (lower llm_output) ''rag'' \<or> contains (lower llm_output) ''vector'')),
                (''use_kag'', JBool (contains (lower llm_output) ''knowledge graph'' \<or> contains (lower llm_output) ''relationship'')),
                (''use_temporal'', JBool (contains (lower llm_output) ''temporal'' \<or> contains (lower llm_output) ''time'')),
                (''use_tools'', JBool (contains (lower llm_output) ''tool'' \<or> contains (lower llm_output) ''external'')),
                (''reasoning'', JStr (take 200 llm_output))])"

text \<open>\<open>QueryStrategy(use_rag=True, reasoning="Default strategy due to analysis error")\<close>.\<close>

definition default_strategy :: QueryStrategy where
  "default_strategy =
     \<lparr>use_rag = True, use_kag = False, use_temporal = False, use_tools = False, rag_limit = 10,
      kg_depth = 2, time_range = None, reasoning = ''Default strategy due to analysis error''\<rparr>"

text \<open>The \<open>try\<close> block of \<open>analyze_query\<close>, and the function with its \<open>except\<close> branch.\<close>

definition analyze_query_try :: "orchestrator \<Rightarrow> string \<Rightarrow> json option \<Rightarrow> exn + QueryStrategy" where
  "analyze_query_try self query ctx =
     bindE (run_analysis self query ctx) (\<lambda>llm_output.
       QueryStrategy_init (validation self) (parse_strategy self llm_output))"

definition analyze_query :: "orchestrator \<Rightarrow> string \<Rightarrow> json option \<Rightarrow> exn + QueryStrategy" where
  "analyze_query self query ctx =
     (case analyze_query_try self query ctx of
        Inl e \<Rightarrow> Inr default_strategy
      | Inr strategy \<Rightarrow> Inr strategy)"

definition generate_answer :: "orchestrator \<Rightarrow> string \<Rightarrow> string \<Rightarrow> json list \<Rightarrow> string" where
  "generate_answer self query ctx srcs =
     (case run_answer self query ctx (take 5 srcs) of
        Inl e \<Rightarrow> ''I apologize, but I encountered an error while generating the answer. Please try again.''
      | Inr t \<Rightarrow> t)"

section \<open>The retrieval agents\<close>

text \<open>
  \<open>RAGAgent.search\<close>, \<open>KAGAgent.analyze_relationships\<close> and \<open>KAGAgent.temporal_search\<close>
  (rag_agent.py, kag_agent.py) each run their work in a \<open>try\<close> block and turn an exception
  into a result without entries. The outcome of the \<open>try\<close> block (the rows or lists it
  computed, or the exception) is the first argument.
\<close>

fun str_exn :: "exn \<Rightarrow> string" where
  "str_exn (KeyError k) = k"
| "str_exn TypeError = ''TypeError''"
| "str_exn AttributeError = ''AttributeError''"
| "str_exn ValidationError = ''ValidationError''"
| "str_exn (ServiceError m) = m"

definition RAGAgent_search :: "(exn + json list) \<Rightarrow> string \<Rightarrow> json option \<Rightarrow> json" where
  "RAGAgent_search body query flt =
     (case body of
        Inr rows \<Rightarrow>
          JObj [(''query'', JStr query), (''results'', JList rows),
                (''total_results'', JNum (real (length rows))),
                (''filters_applied'', (case flt of Some f \<Rightarrow> (if truthy f then f else JObj []) | None \<Rightarrow> JObj []))]
      | Inl e \<Rightarrow>
          JObj [(''query'', JStr query), (''results'', JList []),
                (''total_results'', JNum 0), (''error'', JStr (str_exn e))])"

definition KAGAgent_analyze_relationships ::
    "(exn + json list \<times> json list \<times> json list) \<Rightarrow> string \<Rightarrow> json" where
  "KAGAgent_analyze_relationships body query =
     (case body of
        Inr (entities, relationships, insights) \<Rightarrow>
          if entities = [] then
            JObj [(''query'', JStr query), (''entities'', JList []),
                  (''relationships'', JList []), (''insights'', JList [])]
          else
            JObj [(''query'', JStr query), (''entities'', JList entities),
                  (''relationships'', JList relationships), (''insights'', JList insights)]
      | Inl e \<Rightarrow>
          JObj [(''query'', JStr query), (''entities'', JList []), (''relationships'', JList []),
                (''insights'', JList []), (''error'', JStr (str_exn e))])"

definition KAGAgent_temporal_search ::
    "(exn + json list \<times> json list \<times> json list) \<Rightarrow> real \<Rightarrow> string \<Rightarrow> string option \<Rightarrow> json" where
  "KAGAgent_temporal_search body now query tr =
     (case body of
        Inr (timeline, trends, names) \<Rightarrow>
          (let days = (if tr = Some ''last_6_months'' then 180
                       else if tr = Some ''last_year'' then 365
                       else if tr = Some ''last_month'' then 30
                       else (180 :: real))
           in JObj [(''query'', JStr query),
                    (''time_range'', JObj [(''start'', JTime (now - days * 86400)), (''end'', JTime now),
                                           (''description'', opt_json tr)]),
                    (''timeline'', JList timeline), (''trends'', JList trends),
                    (''entities'', JList names)])
      | Inl e \<Rightarrow>
          JObj [(''query'', JStr query), (''timeline'', JList []), (''trends'', JList []),
                (''error'', JStr (str_exn e))])"

section \<open>The unified agent\<close>

text \<open>
  \<open>UnifiedAgent\<close> (unified_agent.py). The retrieval agents are the calls \<open>process_query\<close>
  makes: \<open>Inl\<close> is an exception leaving the call. Metrics and logging are left out.
\<close>

record QueryRequest =
  req_query :: string
  req_user_id :: "string option"
  req_session_id :: "string option"
  req_context :: "json option"
  req_filters :: "json option"
  req_use_cache :: bool

record QueryResponse =
  answer :: string
  sources :: "json list"
  confidence :: real
  strategy_used :: "string list"
  processing_time :: real
  cached :: bool
  metadata :: json

record unified_agent =
  rag_search :: "string \<Rightarrow> json option \<Rightarrow> int \<Rightarrow> exn + json"
  kag_analyze_relationships :: "string \<Rightarrow> int \<Rightarrow> exn + json"
  kag_temporal_search :: "string \<Rightarrow> string option \<Rightarrow> exn + json"
  cag :: cag_agent
  orch :: orchestrator

text \<open>\<open>item.get(k)\<close>, whose default is None.\<close>

definition get_none :: "json \<Rightarrow> string \<Rightarrow> exn + json" where
  "get_none j k = get_default j k JNull"

text \<open>\<open>sum(xs)\<close> of a list of values.\<close>

fun py_sum :: "json list \<Rightarrow> exn + real" where
  "py_sum [] = Inr 0"
| "py_sum (x # xs) = (case py_num x of
       None \<Rightarrow> Inl TypeError
     | Some v \<Rightarrow> bindE (py_sum xs) (\<lambda>t. Inr (v + t)))"

text \<open>\<open>_calculate_confidence\<close>: the entries each source appends to \<open>scores\<close>, then the mean.\<close>

definition rag_scores :: "dict \<Rightarrow> exn + real list" where
  "rag_scores results =
     (case map_of results ''rag'' of
        None \<Rightarrow> Inr []
      | Some rag \<Rightarrow>
          bindE (get_default rag ''results'' (JList [])) (\<lambda>rs.
          bindE (py_iter rs) (\<lambda>items.
          bindE (mapE (\<lambda>r. get_default r ''score'' (JNum 0)) items) (\<lambda>scs.
            if scs \<noteq> [] then bindE (py_sum scs) (\<lambda>total. Inr [total / real (length scs)])
            else Inr []))))"

definition count_scores :: "dict \<Rightarrow> string \<Rightarrow> string \<Rightarrow> real \<Rightarrow> exn + real list" where
  "count_scores results src k d =
     (case map_of results src of
        None \<Rightarrow> Inr []
      | Some r \<Rightarrow>
          bindE (get_default r k (JList [])) (\<lambda>xs.
          bindE (py_len xs) (\<lambda>n. Inr [min (real n / d) 1])))"

definition calculate_confidence :: "dict \<Rightarrow> exn + real" where
  "calculate_confidence results =
     bindE (rag_scores results) (\<lambda>a.
     bindE (count_scores results ''kag'' ''relationships'' 10) (\<lambda>b.
     bindE (count_scores results ''temporal'' ''timeline'' 5) (\<lambda>c.
       (let scores = a @ b @ c
        in Inr (if scores \<noteq> [] then sum_list scores / real (length scores) else 0.5)))))"

definition determine_query_type :: "string list \<Rightarrow> string" where
  "determine_query_type strategies =
     (if ''KAG-Temporal'' \<in> set strategies then ''temporal''
      else if ''KAG'' \<in> set strategies \<and> ''RAG'' \<in> set strategies then ''analytical''
      else if ''RAG'' \<in> set strategies then ''factual''
      else ''general'')"

text \<open>The three loops of \<open>_combine_results\<close> that fill \<open>all_sources\<close> and \<open>all_content\<close>.\<close>

definition rag_part :: "dict \<Rightarrow> exn + json list \<times> json list" where
  "rag_part results =
     (case map_of results ''rag'' of
        None \<Rightarrow> Inr ([], [])
      | Some rag \<Rightarrow>
          bindE (get_default rag ''results'' (JList [])) (\<lambda>rs.
          bindE (py_iter rs) (\<lambda>items.
          bindE (mapE (\<lambda>item.
                   bindE (get_none item ''document_title'') (\<lambda>t.
                   bindE (get_none item ''content'') (\<lambda>c.
                   bindE (get_none item ''score'') (\<lambda>sc.
                   bindE (get_default item ''content'' (JStr [])) (\<lambda>txt.
                     Inr (JObj [(''type'', JStr ''document''), (''title'', t), (''content'', c),
                                (''score'', sc), (''source'', JStr ''rag'')], txt)))))) items) (\<lambda>ps.
            Inr (map fst ps, map snd ps)))))"

definition kag_part :: "dict \<Rightarrow> exn + json list \<times> json list" where
  "kag_part results =
     (case map_of results ''kag'' of
        None \<Rightarrow> Inr ([], [])
      | Some kag \<Rightarrow>
          bindE (get_default kag ''relationships'' (JList [])) (\<lambda>rs.
          bindE (py_iter rs) (\<lambda>rels.
          bindE (mapE (\<lambda>rel.
                   bindE (get_none rel ''source'') (\<lambda>a.
                   bindE (get_none rel ''target'') (\<lambda>b.
                   bindE (get_none rel ''type'') (\<lambda>t.
                   bindE (get_default rel ''properties'' (JObj [])) (\<lambda>pr.
                     Inr (JObj [(''type'', JStr ''relationship''), (''entities'', JList [a, b]),
                                (''relationship'', t), (''properties'', pr),
                                (''source'', JStr ''kag'')])))))) rels) (\<lambda>srcs.
          bindE (get_default kag ''insights'' (JList [])) (\<lambda>ins.
          bindE (py_iter ins) (\<lambda>insights. Inr (srcs, insights)))))))"

definition temporal_part :: "dict \<Rightarrow> exn + json list" where
  "temporal_part results =
     (case map_of results ''temporal'' of
        None \<Rightarrow> Inr []
      | Some tr \<Rightarrow>
          bindE (get_default tr ''timeline'' (JList [])) (\<lambda>tl.
          bindE (py_iter tl) (\<lambda>events.
            mapE (\<lambda>event.
                   bindE (get_none event ''date'') (\<lambda>d.
                   bindE (get_none event ''description'') (\<lambda>ev.
                   bindE (get_default event ''entities'' (JList [])) (\<lambda>en.
                     Inr (JObj [(''type'', JStr ''temporal''), (''date'', d), (''event'', ev),
                                (''entities'', en), (''source'', JStr ''temporal'')]))))) events)))"

text \<open>\<open>sep.join(xs)\<close>: every element has to be a string.\<close>

definition join_strs :: "string \<Rightarrow> json list \<Rightarrow> exn + string" where
  "join_strs sep xs =
     bindE (mapE (\<lambda>x. case x of JStr t \<Rightarrow> Inr t | _ \<Rightarrow> Inl TypeError) xs) (\<lambda>ts. Inr (join sep ts))"

text \<open>\<open>_combine_results\<close>: the answer, all sources and the confidence.\<close>

definition combine_results :: "unified_agent \<Rightarrow> dict \<Rightarrow> string \<Rightarrow> exn + string \<times> json list \<times> real" where
  "combine_results self results query =
     bindE (rag_part results) (\<lambda>(s1, c1).
     bindE (kag_part results) (\<lambda>(s2, c2).
     bindE (temporal_part results) (\<lambda>s3.
       (let all_sources = s1 @ s2 @ s3; all_content = c1 @ c2 in
        bindE (join_strs [CHR 0x0A, CHR 0x0A] (take 5 all_content)) (\<lambda>ctx.
          (let ans = generate_answer (orch self) query ctx (take 10 all_sources) in
           bindE (calculate_confidence results) (\<lambda>conf. Inr (ans, all_sources, conf))))))))"

text \<open>The retrieval step of \<open>process_query\<close>: the calls in the order of the source, each
  strategy noted before its call.\<close>

definition run_strategies ::
    "unified_agent \<Rightarrow> QueryRequest \<Rightarrow> QueryStrategy \<Rightarrow> exn + string list \<times> dict" where
  "run_strategies self request strategy =
     bindE (if use_rag strategy
            then bindE (rag_search self (req_query request) (req_filters request) (rag_limit strategy))
                   (\<lambda>r. Inr ([''RAG''], [(''rag'', r)]))
            else Inr ([], [])) (\<lambda>(u1, r1).
     bindE (if use_kag strategy
            then bindE (kag_analyze_relationships self (req_query request) (kg_depth strategy))
                   (\<lambda>r. Inr (u1 @ [''KAG''], r1 @ [(''kag'', r)]))
            else Inr (u1, r1)) (\<lambda>(u2, r2).
     (if use_temporal strategy
      then bindE (kag_temporal_search self (req_query request) (time_range strategy))
             (\<lambda>r. Inr (u2 @ [''KAG-Temporal''], r2 @ [(''temporal'', r)]))
      else Inr (u2, r2))))"

definition strategy_dict :: "QueryStrategy \<Rightarrow> json" where
  "strategy_dict st =
     JObj [(''use_rag'', JBool (use_rag st)), (''use_kag'', JBool (use_kag st)),
           (''use_temporal'', JBool (use_temporal st)), (''use_tools'', JBool (use_tools st)),
           (''rag_limit'', JNum (of_int (rag_limit st))), (''kg_depth'', JNum (of_int (kg_depth st))),
           (''time_range'', opt_json (time_range st)), (''reasoning'', JStr (reasoning st))]"

definition result_counts :: "dict \<Rightarrow> exn + dict" where
  "result_counts results =
     mapE (\<lambda>kv. case snd kv of
             JObj d \<Rightarrow> bindE (get_default (snd kv) ''results'' (JList [])) (\<lambda>rs.
                         bindE (py_len rs) (\<lambda>n. Inr (fst kv, JNum (real n))))
           | _ \<Rightarrow> Inr (fst kv, JNum 0)) results"

text \<open>Steps 2 to 5 of \<open>process_query\<close>; \<open>elapsed\<close> is the time the clock shows has passed.\<close>

definition answer_query :: "unified_agent \<Rightarrow> real \<Rightarrow> QueryRequest \<Rightarrow> exn + QueryResponse" where
  "answer_query self elapsed request =
     bindE (analyze_query (orch self) (req_query request) (req_context request)) (\<lambda>strategy.
     bindE (run_strategies self request strategy) (\<lambda>(strategies_used, results).
     bindE (combine_results self results (req_query request)) (\<lambda>(ans, srcs, conf).
     bindE (result_counts results) (\<lambda>counts.
       Inr \<lparr>answer = ans, sources = srcs, confidence = conf, strategy_used = strategies_used,
            processing_time = elapsed, cached = False,
            metadata = JObj [(''strategy'', strategy_dict strategy),
                             (''result_counts'', JObj counts)]\<rparr>))))"

definition request_ctx :: "QueryRequest \<Rightarrow> user_ctx option" where
  "request_ctx request =
     Some \<lparr>ctx_user_id = req_user_id request, ctx_session_id = req_session_id request\<rparr>"

text \<open>\<open>QueryResponse(...)\<close> on the values read from a cached record.\<close>

definition as_list :: "(json \<Rightarrow> exn + 'a) \<Rightarrow> json \<Rightarrow> exn + 'a list" where
  "as_list conv j = (case j of JList xs \<Rightarrow> mapE conv xs | _ \<Rightarrow> Inl ValidationError)"

definition cached_response :: "pydantic \<Rightarrow> json \<Rightarrow> exn + QueryResponse" where
  "cached_response pd cached_result =
     bindE (getitem cached_result ''answer'') (\<lambda>a.
     bindE (getitem cached_result ''sources'') (\<lambda>so.
     bindE (getitem cached_result ''confidence'') (\<lambda>co.
     bindE (get_default cached_result ''strategy_used'' (JList [JStr ''CACHE''])) (\<lambda>su.
     bindE (get_none cached_result ''metadata'') (\<lambda>md.
     bindE (as_str pd a) (\<lambda>a'.
     bindE (as_list (as_dict pd) so) (\<lambda>so'.
     bindE (as_float pd co) (\<lambda>co'.
     bindE (as_list (as_str pd) su) (\<lambda>su'.
     bindE (case md of JNull \<Rightarrow> Inr JNull | _ \<Rightarrow> as_dict pd md) (\<lambda>md'.
       Inr \<lparr>answer = a', sources = so', confidence = co', strategy_used = su',
            processing_time = 0, cached = True, metadata = md'\<rparr>))))))))))"

text \<open>\<open>UnifiedAgent._check_cache\<close>.\<close>

definition unified_check_cache ::
    "unified_agent \<Rightarrow> store \<Rightarrow> real \<Rightarrow> QueryRequest \<Rightarrow> (exn + QueryResponse option) \<times> store" where
  "unified_check_cache self s now request =
     (case check_cache (cag self) s now (req_query request) (request_ctx request) of
        (None, s') \<Rightarrow> (Inr None, s')
      | (Some cached_result, s') \<Rightarrow>
          (if \<not> truthy cached_result then Inr None
           else bindE (get_default cached_result ''confidence'' (JNum 0)) (\<lambda>c.
                  case py_num c of
                    None \<Rightarrow> Inl TypeError
                  | Some x \<Rightarrow>
                      if x > 0.9
                      then bindE (cached_response (validation (orch self)) cached_result) (\<lambda>r. Inr (Some r))
                      else Inr None),
           s'))"

text \<open>\<open>UnifiedAgent._update_cache\<close>.\<close>

definition unified_update_cache ::
    "unified_agent \<Rightarrow> store \<Rightarrow> real \<Rightarrow> QueryRequest \<Rightarrow> QueryResponse \<Rightarrow> store" where
  "unified_update_cache self s now request response =
     update_cache (cag self) s now (req_query request)
       [(''answer'', JStr (answer response)),
        (''sources'', JList (sources response)),
        (''confidence'', JNum (confidence response)),
        (''strategy_used'', JList (map JStr (strategy_used response))),
        (''metadata'', metadata response)]
       (request_ctx request)
       (determine_query_type (strategy_used response))"

text \<open>
  \<open>process_query\<close>. Its \<open>except\<close> branch counts the error and raises it again, so an
  exception of the \<open>try\<close> block is the outcome.
\<close>

definition process_query ::
    "unified_agent \<Rightarrow> store \<Rightarrow> real \<Rightarrow> real \<Rightarrow> QueryRequest \<Rightarrow> (exn + QueryResponse) \<times> store" where
  "process_query self s now elapsed request =
     (case (if req_use_cache request then unified_check_cache self s now request else (Inr None, s)) of
        (Inl e, s1) \<Rightarrow> (Inl e, s1)
      | (Inr (Some cache_result), s1) \<Rightarrow> (Inr cache_result, s1)
      | (Inr None, s1) \<Rightarrow>
          (case answer_query self elapsed request of
             Inl e \<Rightarrow> (Inl e, s1)
           | Inr response \<Rightarrow>
               (Inr response,
                if req_use_cache request then unified_update_cache self s1 now request response
                else s1)))"

section \<open>Terms for stating the similarity fallback\<close>

text \<open>
  An index document as \<open>_store_semantic_cache\<close> writes it: a dict with an embedding, the
  cached record (a dict) and the query text.
\<close>

definition index_entry_ok :: "json \<Rightarrow> bool" where
  "index_entry_ok data =
     (case data of
        JObj kvs \<Rightarrow>
          map_of kvs ''embedding'' \<noteq> None \<and> map_of kvs ''query'' \<noteq> None \<and>
          (case map_of kvs ''cache_data'' of Some (JObj cd) \<Rightarrow> True | _ \<Rightarrow> False)
      | _ \<Rightarrow> False)"

text \<open>The cosine similarity of a query embedding and the embedding indexed under a key.\<close>

definition key_similarity :: "store \<Rightarrow> real \<Rightarrow> real list \<Rightarrow> string \<Rightarrow> real" where
  "key_similarity s now qe k =
     (case kv_get s now k of
        Some (JObj kvs) \<Rightarrow>
          (case map_of kvs ''embedding'' of Some e \<Rightarrow> cosine_similarity qe e | None \<Rightarrow> 0)
      | _ \<Rightarrow> 0)"

text \<open>The record indexed under a key, annotated with the similarity score and with the query
  text it was stored for.\<close>

definition key_match :: "store \<Rightarrow> real \<Rightarrow> real list \<Rightarrow> string \<Rightarrow> json" where
  "key_match s now qe k =
     (case kv_get s now k of
        Some (JObj kvs) \<Rightarrow>
          (case (map_of kvs ''cache_data'', map_of kvs ''query'') of
             (Some (JObj cd), Some q) \<Rightarrow>
               JObj (AList.update ''original_query'' q
                      (AList.update ''similarity_score'' (JNum (key_similarity s now qe k)) cd))
           | _ \<Rightarrow> JNull)
      | _ \<Rightarrow> JNull)"

section \<open>Terms for stating the aggregate confidence\<close>

text \<open>
  The aggregate confidence in the words of the specification: the unweighted mean of the
  signals of the sources that produced one, and 0.5 when none did. The arguments are the
  similarity scores of the semantic search, the number of relationships of the graph search
  and the number of timeline events of the temporal search, each \<open>None\<close> when that source
  did not run. A semantic search without hits produces no signal.
\<close>

definition mean :: "real list \<Rightarrow> real" where
  "mean xs = sum_list xs / real (length xs)"

definition spec_confidence :: "real list option \<Rightarrow> nat option \<Rightarrow> nat option \<Rightarrow> real" where
  "spec_confidence sem rels events =
     (let signals =
            (case sem of None \<Rightarrow> [] | Some scs \<Rightarrow> if scs = [] then [] else [mean scs])
          @ (case rels of None \<Rightarrow> [] | Some n \<Rightarrow> [min (real n / 10) 1])
          @ (case events of None \<Rightarrow> [] | Some m \<Rightarrow> [min (real m / 5) 1])
      in if signals = [] then 0.5 else mean signals)"

text \<open>The result of a source holds the list \<open>xs\<close> under the key \<open>k\<close>; an item carries the
  score \<open>x\<close>.\<close>

definition has_list :: "dict \<Rightarrow> string \<Rightarrow> string \<Rightarrow> json list \<Rightarrow> bool" where
  "has_list results src k xs =
     (case map_of results src of Some (JObj d) \<Rightarrow> map_of d k = Some (JList xs) | _ \<Rightarrow> False)"

definition scored :: "real \<Rightarrow> json \<Rightarrow> bool" where
  "scored x item = (case item of JObj d \<Rightarrow> map_of d ''score'' = Some (JNum x) | _ \<Rightarrow> False)"

section \<open>Terms for stating the strategies used\<close>


section \<open>Concrete inputs\<close>

text \<open>A store with one key in the scope of user 42 and one exact key, both live at time 0.\<close>

definition store42 :: store where
  "store42 = [(''user:42:abc'', JObj [], 10), (''exact:abc'', JObj [], 10)]"

text \<open>The settings with the default TTLs of settings.py, and an agent whose text hash is the
  identity and whose embedding client maps every text to the same vector.\<close>

definition settings0 :: settings where
  "settings0 = \<lparr>cache_ttl_factual = 3600, cache_ttl_analytical = 1800,
                 cache_ttl_temporal = 900, cache_ttl_personal = 300\<rparr>"

definition agent0 :: cag_agent where
  "agent0 = \<lparr>cag_settings = settings0, hash_text = (\<lambda>s. s), embed_text = (\<lambda>s. Some [1, 0])\<rparr>"


text \<open>A request context of user 42 and a result whose confidence is 0.95.\<close>

definition ctx42 :: "user_ctx option" where
  "ctx42 = Some \<lparr>ctx_user_id = Some ''42'', ctx_session_id = None\<rparr>"

definition result95 :: dict where
  "result95 = [(''answer'', JStr ''DataLive is a RAG system''), (''sources'', JList []),
               (''confidence'', JNum 0.95), (''strategy_used'', JList [JStr ''RAG'']),
               (''metadata'', JNull)]"



text \<open>
  A validation that coerces nothing, and three orchestrators: one whose completion
  collaborator raises, one that answers the planning prompt with plain text naming no
  strategy, and one whose answer holds braces that are no JSON.
\<close>

definition strict :: pydantic where
  "strict = \<lparr>lax_bool = (\<lambda>j. None), lax_int = (\<lambda>j. None), lax_float = (\<lambda>j. None),
             lax_str = (\<lambda>j. None), lax_dict = (\<lambda>j. None)\<rparr>"




text \<open>
  Retrieval results: a semantic search with three hits of scores 0.9, 0.8 and 0.75, and
  semantic searches with one hit whose score is 1.5, or -0.5.
\<close>

definition hits_three :: "json list" where
  "hits_three =
     [JObj [(''content'', JStr ''DataLive is a RAG system''), (''score'', JNum 0.9), (''document_title'', JStr ''Overview'')],
      JObj [(''content'', JStr ''It caches answers''), (''score'', JNum 0.8), (''document_title'', JStr ''Cache'')],
      JObj [(''content'', JStr ''It plans strategies''), (''score'', JNum 0.75), (''document_title'', JStr ''Planner'')]]"

definition results_three :: dict where
  "results_three = [(''rag'', RAGAgent_search (Inr hits_three) ''What is DataLive?'' None)]"

definition results_hot :: dict where
  "results_hot = [(''rag'', RAGAgent_search (Inr [JObj [(''score'', JNum 1.5)]]) ''What is DataLive?'' None)]"

definition results_cold :: dict where
  "results_cold = [(''rag'', RAGAgent_search (Inr [JObj [(''score'', JNum (- 0.5))]]) ''What is DataLive?'' None)]"




definition request1 :: QueryRequest where
  "request1 = \<lparr>req_query = ''What is DataLive?'', req_user_id = None, req_session_id = None,
                req_context = None, req_filters = None, req_use_cache = True\<rparr>"



text \<open>
  An orchestrator whose planning answer enables semantic search alone, and a unified agent
  whose semantic search finds two hits of scores 1 and 0.9; the response is what it answers
  on an empty store, with confidence 0.95.
\<close>

definition orch_rag :: orchestrator where
  "orch_rag = \<lparr>run_analysis = (\<lambda>q c. Inr ''rag''),
                run_answer = (\<lambda>q c srcs. Inr ''DataLive is a RAG system''),
                json_loads = (\<lambda>s. None), validation = strict\<rparr>"

definition hits_high :: "json list" where
  "hits_high =
     [JObj [(''content'', JStr ''DataLive is a RAG system''), (''score'', JNum 1), (''document_title'', JStr ''Overview'')],
      JObj [(''content'', JStr ''It caches answers''), (''score'', JNum 0.9), (''document_title'', JStr ''Cache'')]]"

definition uni_high :: unified_agent where
  "uni_high =
     \<lparr>rag_search = (\<lambda>q f l. Inr (RAGAgent_search (Inr hits_high) q f)),
      kag_analyze_relationships = (\<lambda>q d. Inr (KAGAgent_analyze_relationships (Inr ([], [], [])) q)),
      kag_temporal_search = (\<lambda>q r. Inr (KAGAgent_temporal_search (Inr ([], [], [])) 0 q r)),
      cag = agent0, orch = orch_rag\<rparr>"

definition response_high :: QueryResponse where
  "response_high =
     \<lparr>answer = ''DataLive is a RAG system'',
      sources =
        [JObj [(''type'', JStr ''document''), (''title'', JStr ''Overview''),
               (''content'', JStr ''DataLive is a RAG system''),
               (''score'', JNum 1), (''source'', JStr ''rag'')],
         JObj [(''type'', JStr ''document''), (''title'', JStr ''Cache''),
               (''content'', JStr ''It caches answers''),
               (''score'', JNum 0.9), (''source'', JStr ''rag'')]],
      confidence = 0.95, strategy_used = [''RAG''],
      processing_time = 0.4, cached = False,
      metadata =
        JObj [(''strategy'',
               JObj [(''use_rag'', JBool True), (''use_kag'', JBool False),
                     (''use_temporal'', JBool False), (''use_tools'', JBool False),
                     (''rag_limit'', JNum 10), (''kg_depth'', JNum 2), (''time_range'', JNull),
                     (''reasoning'', JStr ''rag'')]),
              (''result_counts'', JObj [(''rag'', JNum 2)])]\<rparr>"

section \<open>The key-value store: basic facts\<close>

lemma kv_get_delete: "kv_get (kv_delete s k) t k' = (if k' = k then None else kv_get s t k')"
  by (simp add: kv_get_def kv_delete_def delete_conv')

lemma kv_get_setex:
  "kv_setex s now k ttl v = Inr s' \<Longrightarrow>
   kv_get s' t k' = (if k' = k then (if t < now + of_int ttl then Some v else None) else kv_get s t k')"
  by (auto simp: kv_setex_def kv_get_def update_conv' split: if_splits)

lemma set_kv_keys: "set (kv_keys s now pat) = {k. kv_get s now k \<noteq> None \<and> glob pat k}"
  by (auto simp: kv_keys_def kv_get_def map_of_eq_None_iff split: option.splits)

lemma kv_get_fold_delete:
  "kv_get (fold (\<lambda>k s'. kv_delete s' k) ks s) t k = (if k \<in> set ks then None else kv_get s t k)"
  by (induction ks arbitrary: s) (auto simp: kv_get_delete)

section \<open>Invalidation by pattern\<close>

text \<open>
  Claim C9, as the code has it: \<open>invalidate_cache_pattern\<close> deletes every live key that
  \<open>KEYS\<close> lists for the pattern and leaves every other key as it was, at every later
  reading time; the value it returns is None, not a count.
\<close>

theorem invalidate_cache_pattern_returns_none:
  "fst (invalidate_cache_pattern s now pat) = JNull \<and>
   kv_keys (snd (invalidate_cache_pattern s now pat)) now pat = [] \<and>
   (\<forall>t k. kv_get (snd (invalidate_cache_pattern s now pat)) t k =
      (if k \<in> set (kv_keys s now pat) then None else kv_get s t k))"
proof -
  let ?s' = "snd (invalidate_cache_pattern s now pat)"
  have g: "kv_get ?s' t k = (if k \<in> set (kv_keys s now pat) then None else kv_get s t k)" for t k
    by (cases "kv_keys s now pat = []") (simp_all add: invalidate_cache_pattern_def Let_def kv_get_fold_delete)
  have "set (kv_keys ?s' now pat) = {}"
    unfolding set_kv_keys using g by (auto simp: set_kv_keys)
  then show ?thesis using g by (simp add: invalidate_cache_pattern_def Let_def)
qed

theorem invalidate_cache_pattern_returns_none_witness:
  "fst (invalidate_cache_pattern store42 0 ''user:42:*'') = JNull \<and>
   kv_get (snd (invalidate_cache_pattern store42 0 ''user:42:*'')) 0 ''user:42:abc'' = None \<and>
   kv_get (snd (invalidate_cache_pattern store42 0 ''user:42:*'')) 0 ''exact:abc'' = Some (JObj [])"
  using invalidate_cache_pattern_returns_none [of store42 0 "''user:42:*''"]
  by (simp add: kv_keys_def kv_get_def store42_def)

text \<open>
  Claim C9 as stated fails: with one matching key the returned value is not the count 1, and
  with no matching key it is not the count 0.
\<close>

theorem invalidate_count_counterexample:
  "kv_keys store42 0 ''user:42:*'' = [''user:42:abc''] \<and>
   fst (invalidate_cache_pattern store42 0 ''user:42:*'') \<noteq> JNum 1 \<and>
   kv_keys store42 0 ''nothing*'' = [] \<and>
   fst (invalidate_cache_pattern store42 0 ''nothing*'') \<noteq> JNum 0"
  by (simp add: invalidate_cache_pattern_def kv_keys_def kv_get_def store42_def)

section \<open>Cache lookup: key order, freshness and probing\<close>

lemma is_fresh_obj: "is_fresh self now r \<Longrightarrow> \<exists>kvs. r = JObj kvs"
  by (cases r) (simp_all add: is_fresh_def getitem_def)


lemma is_fresh_cache_data:
  "is_fresh self' now (cache_data_of self t0 query result uc qt) = (now - t0 < real_of_int (cache_ttl_get self qt))"
  by (simp add: cache_data_of_def is_fresh_def getitem_def get_default_def)

lemma probe_none:
  "\<forall>k\<in>set ks. \<forall>r. kv_get s now k = Some r \<longrightarrow> \<not> is_fresh self now r \<Longrightarrow>
   fst (probe self now ks s) = Inr None \<and>
   (\<forall>t k. kv_get (snd (probe self now ks s)) t k =
      (if k \<in> set ks \<and> kv_get s now k \<noteq> None then None else kv_get s t k))"
proof (induction ks arbitrary: s)
  case Nil
  then show ?case by simp
next
  case (Cons a ks)
  show ?case
  proof (cases "kv_get s now a")
    case None
    have "\<forall>k\<in>set ks. \<forall>r. kv_get s now k = Some r \<longrightarrow> \<not> is_fresh self now r"
      using Cons.prems by simp
    from Cons.IH[OF this] None show ?thesis by auto
  next
    case (Some r)
    then have st: "\<not> is_fresh self now r" using Cons.prems by simp
    have "\<forall>k\<in>set ks. \<forall>r. kv_get (kv_delete s a) now k = Some r \<longrightarrow> \<not> is_fresh self now r"
      using Cons.prems by (simp add: kv_get_delete split: if_splits)
    from Cons.IH[OF this] Some st show ?thesis by (auto simp: kv_get_delete)
  qed
qed

lemma probe_first_fresh:
  "i < length ks \<Longrightarrow> kv_get s now (ks ! i) = Some (JObj kvs) \<Longrightarrow> is_fresh self now (JObj kvs) \<Longrightarrow>
   \<forall>j<i. \<forall>r. kv_get s now (ks ! j) = Some r \<longrightarrow> \<not> is_fresh self now r \<Longrightarrow>
   fst (probe self now ks s) = Inr (Some (JObj (AList.update ''cache_key'' (JStr (ks ! i)) kvs))) \<and>
   (\<forall>t k. kv_get (snd (probe self now ks s)) t k =
      (if k \<in> set (take i ks) \<and> kv_get s now k \<noteq> None then None else kv_get s t k))"
proof (induction ks arbitrary: i s)
  case Nil
  then show ?case by simp
next
  case (Cons a ks)
  show ?case
  proof (cases i)
    case 0
    with Cons.prems show ?thesis by (simp add: setitem_def)
  next
    case (Suc i')
    have stale_a: "\<forall>r. kv_get s now a = Some r \<longrightarrow> \<not> is_fresh self now r"
      using Cons.prems(4) Suc by auto
    have ne: "ks ! i' \<noteq> a" using stale_a Cons.prems(2,3) Suc by auto
    have p4: "\<forall>j<i'. \<forall>r. kv_get s now (ks ! j) = Some r \<longrightarrow> \<not> is_fresh self now r"
      using Cons.prems(4) Suc by auto
    show ?thesis
    proof (cases "kv_get s now a")
      case None
      have "i' < length ks" "kv_get s now (ks ! i') = Some (JObj kvs)"
        using Cons.prems Suc by auto
      from Cons.IH[OF this Cons.prems(3) p4] None Suc show ?thesis by auto
    next
      case (Some r)
      then have st: "\<not> is_fresh self now r" using stale_a by simp
      have a1: "i' < length ks" using Cons.prems Suc by auto
      have a2: "kv_get (kv_delete s a) now (ks ! i') = Some (JObj kvs)"
        using Cons.prems Suc ne by (simp add: kv_get_delete)
      have a4: "\<forall>j<i'. \<forall>r. kv_get (kv_delete s a) now (ks ! j) = Some r \<longrightarrow> \<not> is_fresh self now r"
        using p4 by (simp add: kv_get_delete split: if_splits)
      from Cons.IH[OF a1 a2 Cons.prems(3) a4] Some st Suc show ?thesis
        by (auto simp: kv_get_delete)
    qed
  qed
qed




section \<open>Cache write: one record under every key\<close>

lemma setex_all_ok:
  "0 < ttl \<Longrightarrow> snd (setex_all s now ks ttl v) = None \<and>
   (\<forall>t k. kv_get (fst (setex_all s now ks ttl v)) t k =
      (if k \<in> set ks then (if t < now + of_int ttl then Some v else None) else kv_get s t k))"
proof (induction ks arbitrary: s)
  case Nil
  then show ?case by simp
next
  case (Cons a ks)
  obtain s' where s': "kv_setex s now a ttl v = Inr s'"
    using Cons.prems by (simp add: kv_setex_def)
  from Cons.IH[OF Cons.prems, of s'] s' show ?case
    by (auto simp: kv_get_setex[OF s'])
qed

lemma kv_get_store_semantic_cache:
  "k \<noteq> ''semantic_embeddings:'' @ hash_text self query \<Longrightarrow>
   kv_get (store_semantic_cache self s now query cd) t k = kv_get s t k"
  by (auto simp: store_semantic_cache_def kv_get_setex split: option.splits sum.splits)

lemma index_key_not_candidate:
  "''semantic_embeddings:'' @ h \<notin> set (generate_cache_keys self query uc)"
  by (auto simp: generate_cache_keys_def split: option.splits)

lemma kv_get_update_cache:
  assumes "0 < cache_ttl_get self qt" "k \<in> set (generate_cache_keys self query uc)"
  shows "kv_get (update_cache self s now query result uc qt) t k =
     (if t < now + real_of_int (cache_ttl_get self qt)
      then Some (cache_data_of self now query result uc qt) else None)"
proof -
  let ?cd = "cache_data_of self now query result uc qt"
  let ?ks = "generate_cache_keys self query uc"
  let ?ttl = "cache_ttl_get self qt"
  obtain s1 where s1: "setex_all s now ?ks ?ttl ?cd = (s1, None)"
    using setex_all_ok[OF assms(1), of s now ?ks ?cd] by (cases "setex_all s now ?ks ?ttl ?cd") auto
  have g: "kv_get s1 t k = (if t < now + of_int ?ttl then Some ?cd else None)"
    using setex_all_ok[OF assms(1), of s now ?ks ?cd] s1 assms(2) by simp
  have ne: "k \<noteq> ''semantic_embeddings:'' @ hash_text self query"
    using assms(2) index_key_not_candidate by metis
  have "update_cache self s now query result uc qt = store_semantic_cache self s1 now query ?cd"
    using s1 by (simp add: update_cache_def Let_def)
  then show ?thesis using g kv_get_store_semantic_cache[OF ne] by simp
qed

text \<open>
  Claim C4. With a positive TTL for the query type, \<open>update_cache\<close> writes the same record
  under every generated candidate key: read back before the TTL has passed, each key holds
  that record. Whichever candidate keys have been deleted since, a lookup of the same query
  with the same context is answered from the first key that is left, and what it returns is
  that same record, with only the tag of the matching key added.
\<close>

theorem update_cache_same_record_under_every_key:
  assumes "0 < cache_ttl_get self qt"
    and "t < now + real_of_int (cache_ttl_get self qt)"
    and "keys = generate_cache_keys self query uc"
    and "written = update_cache self s now query result uc qt"
    and "i < length keys" and "keys ! i \<notin> set dels" and "\<forall>j<i. keys ! j \<in> set dels"
  shows "(\<forall>k\<in>set keys. kv_get written t k = Some (cache_data_of self now query result uc qt)) \<and>
    (\<exists>r. fst (check_cache self (fold (\<lambda>k s'. kv_delete s' k) dels written) t query uc) = Some r \<and>
         setitem (cache_data_of self now query result uc qt) ''cache_key'' (JStr (keys ! i)) = Inr r)"
proof -
  let ?cd = "cache_data_of self now query result uc qt"
  let ?s1 = "fold (\<lambda>k s'. kv_delete s' k) dels written"
  have all: "\<forall>k\<in>set keys. kv_get written t k = Some ?cd"
    using kv_get_update_cache[OF assms(1)] assms(2,3,4) by simp
  obtain kvs where kvs: "?cd = JObj kvs" by (simp add: cache_data_of_def)
  have fresh: "is_fresh self t (JObj kvs)"
    using is_fresh_cache_data[of self t self now query result uc qt] assms(2) kvs by simp
  have hit: "kv_get ?s1 t (keys ! i) = Some (JObj kvs)"
    using all assms(5,6) kvs by (simp add: kv_get_fold_delete)
  have miss: "\<forall>j<i. \<forall>r. kv_get ?s1 t (keys ! j) = Some r \<longrightarrow> \<not> is_fresh self t r"
    using assms(7) by (simp add: kv_get_fold_delete)
  have "fst (probe self t keys ?s1) = Inr (Some (JObj (AList.update ''cache_key'' (JStr (keys ! i)) kvs)))"
    using probe_first_fresh[OF assms(5) hit fresh miss] by simp
  then have "fst (check_cache self ?s1 t query uc) = Some (JObj (AList.update ''cache_key'' (JStr (keys ! i)) kvs))"
    by (cases "probe self t keys ?s1") (simp add: check_cache_def assms(3)[symmetric])
  then show ?thesis using all kvs by (simp add: setitem_def)
qed

lemma keys_datalive_42:
  "generate_cache_keys agent0 ''What is DataLive?'' ctx42 =
     [''exact:What is DataLive?'', ''normalized:what is datalive?'',
      ''user:42:What is DataLive?'', ''semantic:datalive'']"
  by code_simp

lemma ttl_factual0: "cache_ttl_get agent0 ''factual'' = 3600"
  by code_simp

theorem update_cache_same_record_under_every_key_witness:
  "kv_get (update_cache agent0 [] 0 ''What is DataLive?'' result95 ctx42 ''factual'') 10
       ''exact:What is DataLive?''
     = Some (cache_data_of agent0 0 ''What is DataLive?'' result95 ctx42 ''factual'') \<and>
   kv_get (update_cache agent0 [] 0 ''What is DataLive?'' result95 ctx42 ''factual'') 10
       ''normalized:what is datalive?''
     = Some (cache_data_of agent0 0 ''What is DataLive?'' result95 ctx42 ''factual'') \<and>
   kv_get (update_cache agent0 [] 0 ''What is DataLive?'' result95 ctx42 ''factual'') 10
       ''user:42:What is DataLive?''
     = Some (cache_data_of agent0 0 ''What is DataLive?'' result95 ctx42 ''factual'') \<and>
   fst (check_cache agent0
         (fold (\<lambda>k s'. kv_delete s' k) [''exact:What is DataLive?'', ''normalized:what is datalive?'']
            (update_cache agent0 [] 0 ''What is DataLive?'' result95 ctx42 ''factual''))
         10 ''What is DataLive?'' ctx42)
     = Some (JObj [(''query'', JStr ''What is DataLive?''), (''result'', JObj result95),
                   (''user_context'', JObj [(''user_id'', JStr ''42''), (''session_id'', JNull)]),
                   (''query_type'', JStr ''factual''), (''cached_at'', JTime 0),
                   (''confidence'', JNum 0.95), (''ttl'', JNum 3600),
                   (''cache_key'', JStr ''user:42:What is DataLive?'')])"
proof -
  have pre: "(0::int) < cache_ttl_get agent0 ''factual''"
    "(10::real) < 0 + real_of_int (cache_ttl_get agent0 ''factual'')"
    by (simp_all add: ttl_factual0)
  have i: "2 < length [''exact:What is DataLive?'', ''normalized:what is datalive?'',
      ''user:42:What is DataLive?'', ''semantic:datalive'']"
    "[''exact:What is DataLive?'', ''normalized:what is datalive?'',
      ''user:42:What is DataLive?'', ''semantic:datalive''] ! 2
       \<notin> set [''exact:What is DataLive?'', ''normalized:what is datalive?'']"
    "\<forall>j<2. [''exact:What is DataLive?'', ''normalized:what is datalive?'',
      ''user:42:What is DataLive?'', ''semantic:datalive''] ! j
       \<in> set [''exact:What is DataLive?'', ''normalized:what is datalive?'']"
    by (simp_all add: less_Suc_eq numeral_2_eq_2)
  from update_cache_same_record_under_every_key [OF pre keys_datalive_42 [symmetric] refl i, of "[]" result95]
  show ?thesis
    by (auto simp: cache_data_of_def setitem_def ttl_factual0 ctx_json_def ctx42_def opt_json_def result95_def)
qed

section \<open>The similarity fallback\<close>

lemma probe_all_miss:
  "\<forall>k\<in>set ks. kv_get s now k = None \<Longrightarrow> probe self now ks s = (Inr None, s)"
  by (induction ks) auto

lemma scan_key_ok:
  assumes "\<forall>d. kv_get s now k = Some d \<longrightarrow> index_entry_ok d" and "0 \<le> thr"
  shows "scan_key s now qe thr acc k =
     (if thr < key_similarity s now qe k \<and> snd acc < key_similarity s now qe k
      then (key_match s now qe k, key_similarity s now qe k) else acc)"
proof (cases "kv_get s now k")
  case None
  then show ?thesis
    using assms by (simp add: scan_key_def key_similarity_def)
next
  case (Some d)
  then have "index_entry_ok d" using assms by simp
  then show ?thesis using Some
    by (auto simp: index_entry_ok_def scan_key_def scan_entry_def key_similarity_def key_match_def
        getitem_def setitem_def Let_def split: json.splits option.splits)
qed


















section \<open>The similarity fallback does not check freshness\<close>

lemma num_list_map: "num_list (map JNum v) = Some v"
  by (induction v) auto

lemma cosine_self:
  assumes "0 < sum_list (map (\<lambda>x. x * x) v)"
  shows "cosine_similarity v (JList (map JNum v)) = 1"
proof -
  let ?S = "sum_list (map (\<lambda>x. x * x) v)"
  have d: "dot v v = ?S" unfolding dot_def by (induction v) auto
  have n: "norm2 v * norm2 v = ?S" using assms by (simp add: norm2_def)
  have nz: "norm2 v \<noteq> 0" using assms by (simp add: norm2_def)
  show ?thesis using d n nz assms by (simp add: cosine_similarity_def num_list_map)
qed

lemma glob_star: "glob ''*'' x"
  by (induction x) auto

lemma glob_index: "glob ''semantic_embeddings:*'' (''semantic_embeddings:'' @ h)"
  by (simp add: glob_star)

lemma distinct_singleton: "distinct xs \<Longrightarrow> set xs = {x} \<Longrightarrow> xs = [x]"
  by (cases xs) (auto simp: subset_singleton_iff)

lemma kv_get_update_cache_full:
  assumes "0 < cache_ttl_get self qt" "embed_text self query = Some e"
    "0 < cache_ttl_analytical (cag_settings self)"
  shows "kv_get (update_cache self s now query result uc qt) t k =
     (if k = ''semantic_embeddings:'' @ hash_text self query then
        (if t < now + real_of_int (cache_ttl_analytical (cag_settings self))
         then Some (JObj [(''query'', JStr query), (''embedding'', JList (map JNum e)),
                          (''cache_data'', cache_data_of self now query result uc qt),
                          (''created_at'', JTime now)])
         else None)
      else if k \<in> set (generate_cache_keys self query uc) then
        (if t < now + real_of_int (cache_ttl_get self qt)
         then Some (cache_data_of self now query result uc qt) else None)
      else kv_get s t k)"
proof -
  let ?cd = "cache_data_of self now query result uc qt"
  let ?ks = "generate_cache_keys self query uc"
  let ?ttl = "cache_ttl_get self qt"
  obtain s1 where s1: "setex_all s now ?ks ?ttl ?cd = (s1, None)"
    using setex_all_ok[OF assms(1), of s now ?ks ?cd] by (cases "setex_all s now ?ks ?ttl ?cd") auto
  have g: "kv_get s1 t k = (if k \<in> set ?ks then (if t < now + of_int ?ttl then Some ?cd else None) else kv_get s t k)"
    using setex_all_ok[OF assms(1), of s now ?ks ?cd] s1 by simp
  have u: "update_cache self s now query result uc qt = store_semantic_cache self s1 now query ?cd"
    using s1 by (simp add: update_cache_def Let_def)
  obtain s2 where s2: "kv_setex s1 now (''semantic_embeddings:'' @ hash_text self query)
                  (cache_ttl_analytical (cag_settings self))
                  (JObj [(''query'', JStr query), (''embedding'', JList (map JNum e)),
                         (''cache_data'', ?cd), (''created_at'', JTime now)]) = Inr s2"
    using assms(3) by (simp add: kv_setex_def)
  have "store_semantic_cache self s1 now query ?cd = s2"
    using s2 by (simp add: store_semantic_cache_def assms(2))
  then show ?thesis unfolding u using kv_get_setex[OF s2, of t k] g index_key_not_candidate[of "hash_text self query" self query uc]
    by auto
qed

text \<open>
  Claim C8. Let a query with a non-zero embedding be cached at time \<open>now\<close> into an empty
  store under a query type whose TTL is shorter than the analytical TTL, and let it be looked
  up again at a time \<open>t\<close> at which the record's own TTL has passed but the analytical
  TTL, with which the embedding index entry was written, has not. Then every candidate key
  misses, and the lookup still returns, through the similarity fallback, the record written at
  \<open>now\<close>: a record that \<open>_is_fresh\<close> judges stale at \<open>t\<close>.
\<close>

theorem similarity_fallback_returns_expired_record:
  assumes "embed_text self query = Some v" and "0 < sum_list (map (\<lambda>x. x * x) v)"
    and "0 < cache_ttl_get self qt"
    and "cache_ttl_get self qt < cache_ttl_analytical (cag_settings self)"
    and "now + real_of_int (cache_ttl_get self qt) \<le> t"
    and "t < now + real_of_int (cache_ttl_analytical (cag_settings self))"
    and "written = update_cache self [] now query result uc qt"
  shows "(\<forall>k\<in>set (generate_cache_keys self query uc). kv_get written t k = None) \<and>
    (\<exists>r. fst (check_cache self written t query uc) = Some r \<and>
         getitem r ''result'' = Inr (JObj result) \<and>
         getitem r ''cached_at'' = Inr (JTime now) \<and>
         getitem r ''ttl'' = Inr (JNum (real_of_int (cache_ttl_get self qt))) \<and>
         \<not> is_fresh self t r)"
proof -
  let ?idx = "''semantic_embeddings:'' @ hash_text self query"
  let ?cd = "cache_data_of self now query result uc qt"
  let ?doc = "JObj [(''query'', JStr query), (''embedding'', JList (map JNum v)),
                          (''cache_data'', ?cd), (''created_at'', JTime now)]"
  have an: "0 < cache_ttl_analytical (cag_settings self)" using assms(3,4) by simp
  note get = kv_get_update_cache_full[OF assms(3) assms(1) an, of "[]" now result uc t, folded assms(7)]
  have miss: "\<forall>k\<in>set (generate_cache_keys self query uc). kv_get written t k = None"
    using get assms(5) index_key_not_candidate[of "hash_text self query" self query uc] by auto
  have idx: "kv_get written t ?idx = Some ?doc" using get assms(6) by simp
  have other: "kv_get written t k = None" if "k \<noteq> ?idx" for k
    using get[of k] that assms(5) by (simp add: kv_get_def)
  have "set (kv_keys written t ''semantic_embeddings:*'') = {?idx}"
    unfolding set_kv_keys using idx other glob_index by force
  moreover have "distinct (kv_keys written t ''semantic_embeddings:*'')"
    by (simp add: kv_keys_def)
  ultimately have keys: "kv_keys written t ''semantic_embeddings:*'' = [?idx]"
    by (rule distinct_singleton[rotated])
  have ok: "\<forall>d. kv_get written t ?idx = Some d \<longrightarrow> index_entry_ok d"
    unfolding idx by (simp add: index_entry_ok_def cache_data_of_def)
  have sim: "key_similarity written t v ?idx = 1"
    unfolding key_similarity_def idx by (simp add: cosine_self[OF assms(2)])
  have z: "(0::real) \<le> 0.85" by simp
  have st: "scan_key written t v 0.85 (JNull, 0) ?idx = (key_match written t v ?idx, 1)"
    unfolding scan_key_ok[OF ok z] sim by simp
  have found: "find_similar_cached_query self written t query 0.85 = key_match written t v ?idx"
    unfolding find_similar_cached_query_def assms(1) keys using st by simp
  have km: "key_match written t v ?idx =
      JObj (AList.update ''original_query'' (JStr query)
             (AList.update ''similarity_score'' (JNum 1)
               [(''query'', JStr query), (''result'', JObj result),
                (''user_context'', ctx_json uc), (''query_type'', JStr qt),
                (''cached_at'', JTime now),
                (''confidence'', (case map_of result ''confidence'' of None \<Rightarrow> JNum 0.5 | Some c \<Rightarrow> c)),
                (''ttl'', JNum (real_of_int (cache_ttl_get self qt)))]))"
    unfolding key_match_def sim idx by (simp add: cache_data_of_def)
  have cc: "fst (check_cache self written t query uc) = Some (key_match written t v ?idx)"
    using probe_all_miss[OF miss, of self] found km by (simp add: check_cache_def)
  have stale: "\<not> is_fresh self t (key_match written t v ?idx)"
    unfolding km using assms(5) by (simp add: is_fresh_def getitem_def get_default_def)
  show ?thesis using miss cc stale unfolding km by (simp add: getitem_def)
qed

lemma keys_datalive:
  "generate_cache_keys agent0 ''What is DataLive?'' None =
     [''exact:What is DataLive?'', ''normalized:what is datalive?'', ''semantic:datalive'']"
  by code_simp

lemma ttl_temporal0: "cache_ttl_get agent0 ''temporal'' = 900"
  by code_simp

theorem similarity_fallback_returns_expired_record_witness:
  "kv_get (update_cache agent0 [] 0 ''What is DataLive?'' result95 None ''temporal'') 1000
       ''exact:What is DataLive?'' = None \<and>
   (\<exists>r. fst (check_cache agent0
              (update_cache agent0 [] 0 ''What is DataLive?'' result95 None ''temporal'')
              1000 ''What is DataLive?'' None) = Some r \<and>
        getitem r ''result'' = Inr (JObj result95) \<and>
        getitem r ''cached_at'' = Inr (JTime 0) \<and>
        getitem r ''ttl'' = Inr (JNum 900) \<and>
        \<not> is_fresh agent0 1000 r)"
proof -
  have e: "embed_text agent0 ''What is DataLive?'' = Some [1, 0]" by (simp add: agent0_def)
  have nz: "(0::real) < sum_list (map (\<lambda>x. x * x) [1, 0])" by simp
  have t1: "0 < cache_ttl_get agent0 ''temporal''"
    "cache_ttl_get agent0 ''temporal'' < cache_ttl_analytical (cag_settings agent0)"
    "0 + real_of_int (cache_ttl_get agent0 ''temporal'') \<le> 1000"
    "1000 < 0 + real_of_int (cache_ttl_analytical (cag_settings agent0))"
    unfolding ttl_temporal0 by (simp_all add: agent0_def settings0_def)
  from similarity_fallback_returns_expired_record [OF e nz t1 refl, where result = result95 and uc = None]
  show ?thesis by (simp add: keys_datalive ttl_temporal0)
qed

section \<open>Planning\<close>




section \<open>The aggregate confidence\<close>

lemma mapE_scores:
  "list_all2 scored scs items \<Longrightarrow>
   mapE (\<lambda>r. get_default r ''score'' (JNum 0)) items = Inr (map JNum scs)"
  by (induction scs items rule: list_all2_induct)
     (auto simp: scored_def get_default_def bindE_def split: json.splits)

lemma py_sum_nums: "py_sum (map JNum xs) = Inr (sum_list xs)"
  by (induction xs) (auto simp: bindE_def)

lemma rag_scores_none: "map_of results ''rag'' = None \<Longrightarrow> rag_scores results = Inr []"
  by (simp add: rag_scores_def)

lemma rag_scores_some:
  assumes "has_list results ''rag'' ''results'' items" "list_all2 scored scs items"
  shows "rag_scores results = Inr (if scs = [] then [] else [mean scs])"
proof -
  obtain d where d: "map_of results ''rag'' = Some (JObj d)" "map_of d ''results'' = Some (JList items)"
    using assms(1) by (auto simp: has_list_def split: option.splits json.splits)
  have len: "length items = length scs" using assms(2) by (simp add: list_all2_lengthD)
  show ?thesis
    using d mapE_scores[OF assms(2)] len
    by (auto simp: rag_scores_def get_default_def bindE_def py_sum_nums mean_def)
qed

lemma count_scores_none: "map_of results src = None \<Longrightarrow> count_scores results src k d = Inr []"
  by (simp add: count_scores_def)

lemma count_scores_some:
  assumes "has_list results src k xs"
  shows "count_scores results src k d = Inr [min (real (length xs) / d) 1]"
  using assms
  by (auto simp: has_list_def count_scores_def get_default_def bindE_def split: option.splits json.splits)

lemma sum_list_unit_bounds:
  "\<forall>x\<in>set xs. 0 \<le> x \<and> x \<le> (1::real) \<Longrightarrow> 0 \<le> sum_list xs \<and> sum_list xs \<le> real (length xs)"
  by (induction xs) auto

lemma mean_unit_bounds:
  assumes "\<forall>x\<in>set xs. 0 \<le> x \<and> x \<le> (1::real)" "xs \<noteq> []"
  shows "0 \<le> mean xs \<and> mean xs \<le> 1"
proof -
  have "0 < real (length xs)" using assms(2) by simp
  then show ?thesis using sum_list_unit_bounds[OF assms(1)]
    by (simp add: mean_def divide_le_eq)
qed

text \<open>
  Claim C3, as the code has it. Let the results hold, for each source that ran, a result
  with its list (the hits with their scores, the relationships, the timeline events). Then
  \<open>_calculate_confidence\<close> returns the unweighted mean of the signals present (the mean of
  the similarity scores when there is a hit, \<open>min(relationships/10, 1)\<close>,
  \<open>min(events/5, 1)\<close>), and 0.5 when no source produced a signal. The value lies within
  [0,1] whenever every similarity score does.
\<close>

theorem calculate_confidence_is_mean_of_signals:
  assumes "case sem of None \<Rightarrow> map_of results ''rag'' = None
           | Some scs \<Rightarrow> (\<exists>items. has_list results ''rag'' ''results'' items \<and> list_all2 scored scs items)"
    and "case rels of None \<Rightarrow> map_of results ''kag'' = None
         | Some n \<Rightarrow> (\<exists>xs. has_list results ''kag'' ''relationships'' xs \<and> length xs = n)"
    and "case events of None \<Rightarrow> map_of results ''temporal'' = None
         | Some m \<Rightarrow> (\<exists>xs. has_list results ''temporal'' ''timeline'' xs \<and> length xs = m)"
  shows "calculate_confidence results = Inr (spec_confidence sem rels events) \<and>
         ((sem = None \<or> sem = Some []) \<and> rels = None \<and> events = None \<longrightarrow>
            calculate_confidence results = Inr 0.5) \<and>
         ((\<forall>scs. sem = Some scs \<longrightarrow> (\<forall>x\<in>set scs. 0 \<le> x \<and> x \<le> 1)) \<longrightarrow>
            0 \<le> spec_confidence sem rels events \<and> spec_confidence sem rels events \<le> 1)"
proof -
  let ?a = "case sem of None \<Rightarrow> [] | Some scs \<Rightarrow> if scs = [] then [] else [mean scs]"
  let ?b = "case rels of None \<Rightarrow> [] | Some n \<Rightarrow> [min (real n / 10) 1]"
  let ?c = "case events of None \<Rightarrow> [] | Some m \<Rightarrow> [min (real m / 5) 1]"
  have a: "rag_scores results = Inr ?a"
    using assms(1) by (cases sem) (auto simp: rag_scores_none rag_scores_some)
  have b: "count_scores results ''kag'' ''relationships'' 10 = Inr ?b"
    using assms(2) by (cases rels) (auto simp: count_scores_none count_scores_some)
  have c: "count_scores results ''temporal'' ''timeline'' 5 = Inr ?c"
    using assms(3) by (cases events) (auto simp: count_scores_none count_scores_some)
  define S where "S = ?a @ ?b @ ?c"
  have cc: "calculate_confidence results = Inr (if S \<noteq> [] then sum_list S / real (length S) else 0.5)"
    unfolding calculate_confidence_def a b c S_def by (simp only: bindE_def sum.case Let_def)
  have sp: "spec_confidence sem rels events = (if S = [] then 0.5 else mean S)"
    unfolding spec_confidence_def S_def by (simp only: Let_def)
  have eq: "calculate_confidence results = Inr (spec_confidence sem rels events)"
    unfolding cc sp by (simp add: mean_def)
  have dflt: "(sem = None \<or> sem = Some []) \<and> rels = None \<and> events = None \<longrightarrow>
            calculate_confidence results = Inr 0.5"
  proof (intro impI)
    assume "(sem = None \<or> sem = Some []) \<and> rels = None \<and> events = None"
    then have "S = []" unfolding S_def by auto
    then show "calculate_confidence results = Inr 0.5" unfolding cc by simp
  qed
  have bounds: "0 \<le> spec_confidence sem rels events \<and> spec_confidence sem rels events \<le> 1"
    if h: "\<forall>scs. sem = Some scs \<longrightarrow> (\<forall>x\<in>set scs. 0 \<le> x \<and> x \<le> 1)"
  proof -
    have sa: "\<forall>x\<in>set ?a. 0 \<le> x \<and> x \<le> 1"
      using h mean_unit_bounds by (cases sem) auto
    have sb: "\<forall>x\<in>set ?b. 0 \<le> x \<and> x \<le> 1" by (cases rels) auto
    have sc: "\<forall>x\<in>set ?c. 0 \<le> x \<and> x \<le> 1" by (cases events) auto
    have all: "\<forall>x\<in>set S. 0 \<le> x \<and> x \<le> 1" unfolding S_def using sa sb sc by auto
    show ?thesis
    proof (cases "S = []")
      case True
      then show ?thesis unfolding sp by simp
    next
      case False
      then show ?thesis unfolding sp using mean_unit_bounds[OF all False] by simp
    qed
  qed
  from eq dflt bounds show ?thesis by blast
qed

theorem calculate_confidence_is_mean_of_signals_witness:
  "calculate_confidence results_three = Inr (49 / 60) \<and>
   spec_confidence (Some [0.9, 0.8, 0.75]) None None = 49 / 60 \<and>
   0 \<le> spec_confidence (Some [0.9, 0.8, 0.75]) None None \<and>
   spec_confidence (Some [0.9, 0.8, 0.75]) None None \<le> 1"
proof -
  have 1: "case Some [0.9, 0.8, 0.75] of None \<Rightarrow> map_of results_three ''rag'' = None
           | Some scs \<Rightarrow> (\<exists>items. has_list results_three ''rag'' ''results'' items \<and> list_all2 scored scs items)"
    by (auto simp: results_three_def RAGAgent_search_def has_list_def hits_three_def scored_def)
  have 2: "case None :: nat option of None \<Rightarrow> map_of results_three ''kag'' = None
         | Some n \<Rightarrow> (\<exists>xs. has_list results_three ''kag'' ''relationships'' xs \<and> length xs = n)"
    by (simp add: results_three_def)
  have 3: "case None :: nat option of None \<Rightarrow> map_of results_three ''temporal'' = None
         | Some m \<Rightarrow> (\<exists>xs. has_list results_three ''temporal'' ''timeline'' xs \<and> length xs = m)"
    by (simp add: results_three_def)
  have v: "spec_confidence (Some [0.9, 0.8, 0.75]) None None = 49 / 60"
    by (simp add: spec_confidence_def mean_def)
  from calculate_confidence_is_mean_of_signals [OF 1 2 3] v show ?thesis by simp
qed

text \<open>
  Claim C3 as stated fails for its range: the similarity scores are not clamped, so a hit
  with score 1.5 gives the confidence 1.5, and one with score -0.5 gives -0.5.
\<close>

theorem calculate_confidence_out_of_range_counterexample:
  "calculate_confidence results_hot = Inr 1.5 \<and> calculate_confidence results_cold = Inr (- 0.5)"
  by (simp add: calculate_confidence_def rag_scores_def count_scores_def results_hot_def
      results_cold_def RAGAgent_search_def get_default_def bindE_def)

section \<open>Processing a query: failing retrieval calls\<close>










lemma check_cache_empty: "check_cache self [] now query uc = (None, [])"
proof -
  have "\<forall>k\<in>set (generate_cache_keys self query uc). kv_get [] now k = None"
    by (simp add: kv_get_def)
  then have "probe self now (generate_cache_keys self query uc) [] = (Inr None, [])"
    by (rule probe_all_miss)
  moreover have "find_similar_cached_query self [] now query 0.85 = JNull"
    by (simp add: find_similar_cached_query_def kv_keys_def split: option.splits)
  ultimately show ?thesis by (simp add: check_cache_def)
qed

lemma unified_check_cache_empty: "unified_check_cache self [] now request = (Inr None, [])"
  by (simp add: unified_check_cache_def check_cache_empty)





section \<open>Processing a query: the cache hit\<close>

lemma cached_response_no_answer:
  "map_of kvs ''answer'' = None \<Longrightarrow> cached_response pd (JObj kvs) = Inl (KeyError ''answer'')"
  by (simp add: cached_response_def getitem_def bindE_def)

lemma tagged_record_fields:
  assumes "setitem (cache_data_of writer t0 q result uc qt) ''cache_key'' (JStr k) = Inr r"
  shows "\<exists>kvs. r = JObj kvs \<and> kvs \<noteq> [] \<and> map_of kvs ''answer'' = None \<and>
     map_of kvs ''confidence'' = Some (case map_of result ''confidence'' of None \<Rightarrow> JNum 0.5 | Some c \<Rightarrow> c)"
  using assms by (auto simp: setitem_def cache_data_of_def)

lemma check_cache_after_update:
  assumes "0 < cache_ttl_get self qt" "t < now + real_of_int (cache_ttl_get self qt)"
    and "cache_data_of self now query result uc qt = JObj kvs"
  shows "fst (check_cache self (update_cache self s now query result uc qt) t query uc) =
     Some (JObj (AList.update ''cache_key'' (JStr (''exact:'' @ hash_text self query)) kvs))"
proof -
  let ?w = "update_cache self s now query result uc qt"
  let ?ks = "generate_cache_keys self query uc"
  have k0: "?ks ! 0 = ''exact:'' @ hash_text self query" "0 < length ?ks"
    by (simp_all add: generate_cache_keys_def)
  then have mem: "?ks ! 0 \<in> set ?ks" using nth_mem by blast
  have hit: "kv_get ?w t (?ks ! 0) = Some (JObj kvs)"
    using kv_get_update_cache[OF assms(1) mem, of s now result t] assms(2,3) by simp
  have fresh: "is_fresh self t (JObj kvs)"
    using is_fresh_cache_data[of self t self now query result uc qt] assms(2,3) by simp
  have "fst (probe self t ?ks ?w) = Inr (Some (JObj (AList.update ''cache_key'' (JStr (?ks ! 0)) kvs)))"
    using probe_first_fresh[OF k0(2) hit fresh] by simp
  then show ?thesis
    by (cases "probe self t ?ks ?w") (simp add: check_cache_def k0(1))
qed

text \<open>
  Claim C2 against the code. When a request asks for the cache and the lookup returns a
  record as \<open>update_cache\<close> wrote it (tagged with the key that matched) whose stored
  confidence is above 0.9, \<open>process_query\<close> does not return that record as a response: the
  record keeps the answer and the sources inside its entry \<open>result\<close>, \<open>_check_cache\<close>
  reads \<open>cached_result['answer']\<close> at the top level, and the KeyError is raised to the
  caller.
\<close>

theorem cache_hit_raises_key_error:
  assumes "req_use_cache request"
    and "fst (check_cache (cag self) s now (req_query request) (request_ctx request)) = Some r"
    and "setitem (cache_data_of writer t0 q result uc qt) ''cache_key'' (JStr k) = Inr r"
    and "map_of result ''confidence'' = Some (JNum c)" and "0.9 < c"
  shows "fst (process_query self s now elapsed request) = Inl (KeyError ''answer'')"
proof -
  obtain kvs where kvs: "r = JObj kvs" "kvs \<noteq> []" "map_of kvs ''answer'' = None"
      "map_of kvs ''confidence'' = Some (JNum c)"
    using tagged_record_fields[OF assms(3)] assms(4) by auto
  obtain s' where cc: "check_cache (cag self) s now (req_query request) (request_ctx request) = (Some (JObj kvs), s')"
    using assms(2) kvs(1) by (cases "check_cache (cag self) s now (req_query request) (request_ctx request)") auto
  have "unified_check_cache self s now request = (Inl (KeyError ''answer''), s')"
    using cc kvs assms(5)
    by (simp add: unified_check_cache_def get_default_def bindE_def cached_response_no_answer)
  then show ?thesis using assms(1) by (simp add: process_query_def)
qed

lemma answer_high: "answer_query uni_high 0.4 request1 = Inr response_high"
  by code_simp

lemma first_request:
  "process_query uni_high [] 0 0.4 request1 =
     (Inr response_high, unified_update_cache uni_high [] 0 request1 response_high)"
proof -
  have uc: "req_use_cache request1" by (simp add: request1_def)
  show ?thesis
    by (simp only: process_query_def uc if_True unified_check_cache_empty prod.case sum.case
        option.case answer_high)
qed

lemma query_type_high: "determine_query_type (strategy_used response_high) = ''factual''"
  by code_simp

theorem cache_hit_raises_key_error_witness:
  "fst (process_query uni_high [] 0 0.4 request1) = Inr response_high \<and>
   confidence response_high = 0.95 \<and>
   fst (process_query uni_high (snd (process_query uni_high [] 0 0.4 request1)) 1 0.4 request1)
     = Inl (KeyError ''answer'')"
proof -
  let ?result = "[(''answer'', JStr (answer response_high)),
        (''sources'', JList (sources response_high)),
        (''confidence'', JNum (confidence response_high)),
        (''strategy_used'', JList (map JStr (strategy_used response_high))),
        (''metadata'', metadata response_high)]"
  let ?cd = "cache_data_of agent0 0 ''What is DataLive?'' ?result (request_ctx request1) ''factual''"
  let ?s1 = "update_cache agent0 [] 0 ''What is DataLive?'' ?result (request_ctx request1) ''factual''"
  have s1: "snd (process_query uni_high [] 0 0.4 request1) = ?s1"
    unfolding first_request
    by (simp add: unified_update_cache_def query_type_high) (simp add: uni_high_def request1_def)
  obtain kvs where kvs: "?cd = JObj kvs" by (simp add: cache_data_of_def)
  have ttl: "0 < cache_ttl_get agent0 ''factual''" "(1::real) < 0 + real_of_int (cache_ttl_get agent0 ''factual'')"
    unfolding ttl_factual0 by simp_all
  have hit: "fst (check_cache (cag uni_high) ?s1 1 (req_query request1) (request_ctx request1))
      = Some (JObj (AList.update ''cache_key'' (JStr (''exact:'' @ hash_text agent0 ''What is DataLive?'')) kvs))"
    using check_cache_after_update[OF ttl kvs, of "[]"] by (simp add: uni_high_def request1_def)
  have tag: "setitem ?cd ''cache_key'' (JStr (''exact:'' @ hash_text agent0 ''What is DataLive?''))
      = Inr (JObj (AList.update ''cache_key'' (JStr (''exact:'' @ hash_text agent0 ''What is DataLive?'')) kvs))"
    unfolding kvs by (simp add: setitem_def)
  have conf: "map_of ?result ''confidence'' = Some (JNum 0.95)" "(0.9::real) < 0.95"
    by (simp_all add: response_high_def)
  have uc: "req_use_cache request1" by (simp add: request1_def)
  have second: "fst (process_query uni_high ?s1 1 0.4 request1) = Inl (KeyError ''answer'')"
    by (rule cache_hit_raises_key_error[OF uc hit tag conf])
  have first: "fst (process_query uni_high [] 0 0.4 request1) = Inr response_high"
    by (simp only: first_request fst_conv)
  have c: "confidence response_high = 0.95" by (simp add: response_high_def)
  show ?thesis unfolding s1 using first c second by blast
qed

end
